theory Spec2Isabelle
  imports Complex_Main "HOL-Library.AList" "HOL-Library.Word"
begin

section \<open>Values, exceptions and effects\<close>

text \<open>
  The program handles decoded JSON throughout: \<open>response.json()\<close> yields Python values
  built from \<open>None\<close>, booleans, numbers, strings, lists and dictionaries. A dictionary is
  kept as an association list in insertion order, which is the order a Python \<open>dict\<close>
  keeps. \<open>JNull\<close> is Python's \<open>None\<close>, the absence value of the fetch layer. JSON numbers
  are restricted to integers; floating-point payloads are outside the model.
\<close>

datatype json =
    JNull
  | JBool bool
  | JInt int
  | JStr string
  | JArr "json list"
  | JObj "(string \<times> json) list"

text \<open>The exceptions that can leave the modelled functions.\<close>

datatype exn =
    KeyError
  | TypeError
  | ValueError
  | UnboundLocalError
  | UnicodeDecodeError

type_synonym byte = "8 word"

text \<open>
  A \<open>requests.Response\<close> as far as \<open>fetch_data\<close> reads it: the status code, the raw body
  and what \<open>response.json()\<close> decodes from the body (\<open>None\<close> when decoding raises
  \<open>requests.JSONDecodeError\<close>, which is a \<open>RequestException\<close>).
\<close>

record response =
  status_code :: int
  content :: "byte list"
  json_body :: "json option"

text \<open>
  What one call of \<open>requests.request\<close> does: it returns a response, raises
  \<open>requests.Timeout\<close>, or raises another \<open>requests.RequestException\<close> (a connection
  error, for instance).
\<close>

datatype outcome =
    Responded response
  | RaisedTimeout
  | RaisedRequestException

datatype level = INFO | WARNING | ERROR

text \<open>
  The effects of a run, in order: HTTP requests (method, URL, JSON body), sleeps and log
  records. A log record carries its level and the source text of its message, before
  interpolation. Console prints are not recorded.
\<close>

datatype event =
    Request string string json
  | Sleep real
  | Log level string

text \<open>
  The world a run acts on: the number of transport calls made so far and the trace of
  effects. The transport itself is a function from the call number to the outcome of
  that call.
\<close>

record world =
  calls :: nat
  trace :: "event list"

type_synonym transport = "nat \<Rightarrow> outcome"

definition emit :: "event list \<Rightarrow> world \<Rightarrow> world" where
  "emit evs w = w\<lparr>trace := trace w @ evs\<rparr>"

definition init_world :: world where
  "init_world = \<lparr>calls = 0, trace = []\<rparr>"

section \<open>The request executor\<close>

definition BASE_URL :: string where
  "BASE_URL = ''https://api.krakenflex.systems/interview-tests-mock-api/v1''"

text \<open>
  \<open>bytes.decode('utf-8')\<close> raises \<open>UnicodeDecodeError\<close> unless the bytes are well-formed
  UTF-8: no stray continuation byte, no overlong form, no surrogate, nothing above
  U+10FFFF.
\<close>

definition continuation :: "byte \<Rightarrow> bool" where
  "continuation b = (0x80 \<le> b \<and> b \<le> 0xBF)"

fun utf8_valid :: "byte list \<Rightarrow> bool" where
  "utf8_valid [] = True"
| "utf8_valid (b # bs) =
     (if b \<le> 0x7F then utf8_valid bs
      else if 0xC2 \<le> b \<and> b \<le> 0xDF then
        (case bs of
           c1 # r \<Rightarrow> continuation c1 \<and> utf8_valid r
         | _ \<Rightarrow> False)
      else if 0xE0 \<le> b \<and> b \<le> 0xEF then
        (case bs of
           c1 # c2 # r \<Rightarrow>
             (if b = 0xE0 then 0xA0 \<le> c1 \<and> c1 \<le> 0xBF
              else if b = 0xED then 0x80 \<le> c1 \<and> c1 \<le> 0x9F
              else continuation c1)
             \<and> continuation c2 \<and> utf8_valid r
         | _ \<Rightarrow> False)
      else if 0xF0 \<le> b \<and> b \<le> 0xF4 then
        (case bs of
           c1 # c2 # c3 # r \<Rightarrow>
             (if b = 0xF0 then 0x90 \<le> c1 \<and> c1 \<le> 0xBF
              else if b = 0xF4 then 0x80 \<le> c1 \<and> c1 \<le> 0x8F
              else continuation c1)
             \<and> continuation c2 \<and> continuation c3 \<and> utf8_valid r
         | _ \<Rightarrow> False)
      else False)"

text \<open>\<open>range(retries)\<close>: empty when \<open>retries\<close> is zero or negative.\<close>

definition range :: "int \<Rightarrow> nat list" where
  "range n = [0 ..< nat n]"

text \<open>
  The handler \<open>except requests.RequestException as e\<close>. It logs the error and then reads
  \<open>response.content\<close>. The local variable \<open>response\<close> holds the response of the latest
  attempt of this call that returned one; it is unbound (\<open>None\<close> here) when no attempt has
  returned yet, and reading it then raises \<open>UnboundLocalError\<close>. The result is the
  exception leaving the handler, if any, and the world after its log records.
\<close>

definition on_request_exception :: "response option \<Rightarrow> world \<Rightarrow> exn option \<times> world" where
  "on_request_exception resp w =
     (let w1 = emit [Log ERROR ''Request error: {e}''] w in
      case resp of
        None \<Rightarrow> (Some UnboundLocalError, w1)
      | Some r \<Rightarrow>
          if content r \<noteq> [] then
            (if utf8_valid (content r)
             then (None, emit [Log ERROR ''API Error Message: {response.content.decode('utf-8')}''] w1)
             else (Some UnicodeDecodeError, w1))
          else (None, w1))"

text \<open>
  The body of \<open>for i in range(retries)\<close>, one equation per remaining list of indices.
  \<open>resp\<close> is the local variable \<open>response\<close>. \<open>backoff_factor\<close> is a real number: the
  product \<open>backoff_factor * (2 ** i)\<close> is exact, float rounding and overflow are not
  modelled. \<open>time.sleep\<close> raises \<open>ValueError\<close> on a negative duration.
  \<open>response.raise_for_status()\<close> raises \<open>HTTPError\<close> for a status from 400 to 599.
\<close>

fun attempts ::
  "transport \<Rightarrow> string \<Rightarrow> string \<Rightarrow> json \<Rightarrow> real \<Rightarrow> nat list \<Rightarrow> response option \<Rightarrow> world
     \<Rightarrow> (exn + json) \<times> world" where
  "attempts tr method url data backoff_factor [] resp w = (Inr JNull, w)"
| "attempts tr method url data backoff_factor (i # is) resp w =
     (let w1 = emit [Request method url data] (w\<lparr>calls := Suc (calls w)\<rparr>) in
      case tr (calls w) of
        RaisedTimeout \<Rightarrow>
          attempts tr method url data backoff_factor is resp
            (emit [Log ERROR ''Request timed out.''] w1)
      | RaisedRequestException \<Rightarrow>
          (case on_request_exception resp w1 of
             (Some e, w2) \<Rightarrow> (Inl e, w2)
           | (None, w2) \<Rightarrow> attempts tr method url data backoff_factor is resp w2)
      | Responded r \<Rightarrow>
          if status_code r = 429 then
            (let wait_time = backoff_factor * 2 ^ i;
                 w2 = emit [Log WARNING ''Rate limit reached. Waiting for {wait_time} seconds and retrying...''] w1
             in if wait_time < 0 then (Inl ValueError, w2)
                else attempts tr method url data backoff_factor is (Some r)
                       (emit [Sleep wait_time] w2))
          else if status_code r = 400 then
            (if utf8_valid (content r)
             then (Inr JNull,
                   emit [Log ERROR ''Bad Request. Server Response: {response.content.decode('utf-8')}''] w1)
             else (Inl UnicodeDecodeError, w1))
          else if 400 \<le> status_code r \<and> status_code r < 600 then
            attempts tr method url data backoff_factor is (Some r)
              (emit [Log ERROR
                 (if status_code r = 500
                  then ''Internal Server Error. Please check with the API server maintainers.''
                  else ''HTTP error occurred: {http_err}'')] w1)
          else
            (case json_body r of
               Some j \<Rightarrow> (Inr j, w1)
             | None \<Rightarrow>
                 (case on_request_exception (Some r) w1 of
                    (Some e, w2) \<Rightarrow> (Inl e, w2)
                  | (None, w2) \<Rightarrow> attempts tr method url data backoff_factor is (Some r) w2)))"

definition fetch_data ::
  "transport \<Rightarrow> string \<Rightarrow> string \<Rightarrow> json \<Rightarrow> int \<Rightarrow> real \<Rightarrow> world \<Rightarrow> (exn + json) \<times> world" where
  "fetch_data tr endpoint method data retries backoff_factor w =
     attempts tr method (BASE_URL @ endpoint) data backoff_factor (range retries) None w"

text \<open>What a trace says about the network and the clock.\<close>

fun requests_of :: "event list \<Rightarrow> (string \<times> string \<times> json) list" where
  "requests_of [] = []"
| "requests_of (Request m u d # evs) = (m, u, d) # requests_of evs"
| "requests_of (_ # evs) = requests_of evs"

fun sleeps_of :: "event list \<Rightarrow> real list" where
  "sleeps_of [] = []"
| "sleeps_of (Sleep t # evs) = t # sleeps_of evs"
| "sleeps_of (_ # evs) = sleeps_of evs"

section \<open>Properties of the request executor\<close>

text \<open>
  C10: with \<open>retries = 0\<close> (or any non-positive count) \<open>fetch_data\<close> never calls the
  transport, never sleeps, leaves the world as it is and returns \<open>None\<close>, whatever the
  endpoint, method and body.
\<close>

theorem fetch_data_zero_retries:
  "fetch_data tr endpoint method data 0 backoff_factor w = (Inr JNull, w)"
  by (simp add: fetch_data_def range_def)

end
